theory Spec2Isabelle
  imports Complex_Main
begin

section \<open>Numbers, failures and array primitives\<close>

text \<open>
  The signal engine of \<^verbatim>\<open>signal_engine.py\<close> computes on NumPy arrays of 64-bit floats.
  The embedding idealises a float as a \<^typ>\<open>real\<close>: rounding, overflow and the special
  values NaN and Inf are not represented. What the code does when it leaves the reals is
  made explicit instead: every function that can index out of range or divide by zero
  returns \<open>error + 'a\<close>.

  \<^item> \<open>IndexError\<close> is the exception Python and NumPy raise on an index out of range.
  \<^item> \<open>DivisionByZero\<close> stands for a division whose divisor is zero: Python raises
    ZeroDivisionError for its own numbers, NumPy gives NaN or Inf with a warning (the mean
    of an empty array is such a division, 0/0).
\<close>

datatype error = IndexError | DivisionByZero

definition ebind :: "error + 'a \<Rightarrow> ('a \<Rightarrow> error + 'b) \<Rightarrow> error + 'b" where
  "ebind m f = (case m of Inl e \<Rightarrow> Inl e | Inr x \<Rightarrow> f x)"

definition fdiv :: "real \<Rightarrow> real \<Rightarrow> error + real" where
  "fdiv a b = (if b = 0 then Inl DivisionByZero else Inr (a / b))"

definition len :: "'a list \<Rightarrow> int" where
  "len xs = int (length xs)"

text \<open>\<^verbatim>\<open>xs[i]\<close>: a negative index counts from the end; out of range raises.\<close>

definition py_index :: "'a list \<Rightarrow> int \<Rightarrow> error + 'a" where
  "py_index xs i =
     (let n = len xs; j = (if i < 0 then n + i else i)
      in if 0 \<le> j \<and> j < n then Inr (xs ! nat j) else Inl IndexError)"

text \<open>
  \<^verbatim>\<open>xs[lo:hi]\<close> with either bound optional: a negative bound counts from the end, and
  every bound is clipped to the length, so a slice never raises.
\<close>

definition slice_bound :: "nat \<Rightarrow> int \<Rightarrow> nat" where
  "slice_bound n i = (if i < 0 then nat (max 0 (int n + i)) else min n (nat i))"

definition py_slice :: "'a list \<Rightarrow> int option \<Rightarrow> int option \<Rightarrow> 'a list" where
  "py_slice xs lo hi =
     (let n = length xs;
          start = (case lo of None \<Rightarrow> 0 | Some i \<Rightarrow> slice_bound n i);
          stop = (case hi of None \<Rightarrow> n | Some i \<Rightarrow> slice_bound n i)
      in take (stop - start) (drop start xs))"

text \<open>\<^verbatim>\<open>np.mean\<close>, \<^verbatim>\<open>np.std\<close> (population standard deviation) and \<^verbatim>\<open>np.diff\<close>.\<close>

definition np_mean :: "real list \<Rightarrow> error + real" where
  "np_mean xs = fdiv (sum_list xs) (of_nat (length xs))"

definition np_std :: "real list \<Rightarrow> error + real" where
  "np_std xs =
     ebind (np_mean xs) (\<lambda>m.
     ebind (np_mean (map (\<lambda>x. (x - m)\<^sup>2) xs)) (\<lambda>v.
     Inr (sqrt v)))"

definition np_diff :: "real list \<Rightarrow> real list" where
  "np_diff xs = map (\<lambda>(a, b). b - a) (zip xs (tl xs))"

text \<open>\<^verbatim>\<open>round(x, n)\<close>: to \<open>n\<close> decimals, a tie going to the even neighbour.\<close>

definition rint :: "real \<Rightarrow> int" where
  "rint x =
     (let f = \<lfloor>x\<rfloor>; d = x - of_int f
      in if d < 1 / 2 then f else if 1 / 2 < d then f + 1
         else if even f then f else f + 1)"

definition py_round :: "real \<Rightarrow> nat \<Rightarrow> real" where
  "py_round x n = of_int (rint (x * 10 ^ n)) / 10 ^ n"

text \<open>
  The candle array is a two-dimensional array of shape \<open>(length rows, ncols)\<close> with the
  columns time, open, high, low, close, volume. \<^verbatim>\<open>candles[:, j]\<close> and
  \<^verbatim>\<open>candles[-1, j]\<close> check \<open>j\<close> against the shape. \<open>well_shaped\<close> says that
  every row has \<open>ncols\<close> entries, as in every array NumPy builds; the theorems below hold
  whatever the rows contain, so none of them has to assume it.
\<close>

record ndarray2 =
  ncols :: nat
  rows :: "real list list"

definition well_shaped :: "ndarray2 \<Rightarrow> bool" where
  "well_shaped a = list_all (\<lambda>r. length r = ncols a) (rows a)"

definition column :: "ndarray2 \<Rightarrow> nat \<Rightarrow> error + real list" where
  "column a j = (if j < ncols a then Inr (map (\<lambda>r. r ! j) (rows a)) else Inl IndexError)"

definition last_row_item :: "ndarray2 \<Rightarrow> nat \<Rightarrow> error + real" where
  "last_row_item a j =
     (if rows a = [] \<or> ncols a \<le> j then Inl IndexError else Inr (last (rows a) ! j))"

section \<open>Data model\<close>

datatype SignalType = STRONG_LONG | LONG | NEUTRAL | SHORT | STRONG_SHORT

fun signal_value :: "SignalType \<Rightarrow> int" where
  "signal_value STRONG_LONG = 2"
| "signal_value LONG = 1"
| "signal_value NEUTRAL = 0"
| "signal_value SHORT = - 1"
| "signal_value STRONG_SHORT = - 2"

text \<open>
  The \<open>reason\<close> of a strategy signal is an f-string: it is kept as its template and the
  numbers formatted into it.
\<close>

record StrategySignal =
  name :: string
  signal :: SignalType
  confidence :: real
  indicators :: "(string \<times> real) list"
  reason :: "string \<times> real list"

type_synonym datetime = int

record CompositeSignal =
  symbol :: string
  price :: real
  final_signal :: SignalType
  avg_confidence :: real
  strategies :: "StrategySignal list"
  timestamp :: datetime

text \<open>
  The fields \<open>signal\<close> and \<open>confidence\<close> of \<^verbatim>\<open>CompositeSignal\<close> are named
  \<open>final_signal\<close> and \<open>avg_confidence\<close> here, after the variables they are built from.
\<close>

record SignalEngine =
  weights :: "string \<rightharpoonup> real"
  default_weight :: real

definition init :: "(string \<rightharpoonup> real) option \<Rightarrow> SignalEngine" where
  "init w = \<lparr>weights = (case w of None \<Rightarrow> Map.empty | Some m \<Rightarrow> m), default_weight = 1\<rparr>"

section \<open>Indicators\<close>

definition calculate_rsi :: "real list \<Rightarrow> int \<Rightarrow> error + real" where
  "calculate_rsi closes period =
     (if len closes < period + 1 then Inr 50
      else
        let deltas = np_diff closes;
            gains = map (\<lambda>d. if d > 0 then d else 0) deltas;
            losses = map (\<lambda>d. if d < 0 then - d else 0) deltas
        in ebind (np_mean (py_slice gains (Some (- period)) None)) (\<lambda>avg_gain.
           ebind (np_mean (py_slice losses (Some (- period)) None)) (\<lambda>avg_loss.
           if avg_loss = 0 then Inr 100
           else ebind (fdiv avg_gain avg_loss) (\<lambda>rs.
                ebind (fdiv 100 (1 + rs)) (\<lambda>q.
                Inr (100 - q))))))"

definition calculate_bollinger_bands ::
  "real list \<Rightarrow> int \<Rightarrow> int \<Rightarrow> error + real \<times> real \<times> real" where
  "calculate_bollinger_bands closes period std =
     (if len closes < period then
        ebind (py_index closes (- 1)) (\<lambda>c. Inr (c, c, c))
      else
        ebind (np_mean (py_slice closes (Some (- period)) None)) (\<lambda>sma.
        ebind (np_std (py_slice closes (Some (- period)) None)) (\<lambda>std_dev.
        let upper = sma + of_int std * std_dev;
            lower = sma - of_int std * std_dev
        in Inr (upper, sma, lower))))"

definition calculate_ema :: "real list \<Rightarrow> int \<Rightarrow> error + real" where
  "calculate_ema closes period =
     (if len closes < period then py_index closes (- 1)
      else
        ebind (fdiv 2 (of_int (period + 1))) (\<lambda>multiplier.
        ebind (py_index closes 0) (\<lambda>ema0.
        Inr (foldl (\<lambda>ema price. price * multiplier + ema * (1 - multiplier))
               ema0 (py_slice closes (Some 1) None)))))"

definition calculate_macd :: "real list \<Rightarrow> error + real \<times> real \<times> real" where
  "calculate_macd closes =
     ebind (calculate_ema closes 12) (\<lambda>ema12.
     ebind (calculate_ema closes 26) (\<lambda>ema26.
     let macd_line = ema12 - ema26;
         signal_line = macd_line * (9 / 10);
         histogram = macd_line - signal_line
     in Inr (macd_line, signal_line, histogram)))"

section \<open>Strategies\<close>

definition strategy_rsi_mean_reversion :: "ndarray2 \<Rightarrow> error + StrategySignal" where
  "strategy_rsi_mean_reversion candles =
     ebind (column candles 4) (\<lambda>closes.
     ebind (py_index closes (- 1)) (\<lambda>price.
     ebind (calculate_rsi closes 14) (\<lambda>rsi.
     ebind (calculate_bollinger_bands closes 20 2) (\<lambda>(bb_upper, bb_mid, bb_lower).
     let (sig, conf, why) =
           (if rsi < 30 \<and> price < bb_lower then
              (STRONG_LONG, 80 + (30 - rsi),
               (''Oversold: RSI={rsi:.1f}, price below lower BB'', [rsi]))
            else if rsi < 35 \<and> price < bb_mid then
              (LONG, 60 + (35 - rsi), (''Near oversold: RSI={rsi:.1f}'', [rsi]))
            else if rsi > 70 \<and> price > bb_upper then
              (STRONG_SHORT, 80 + (rsi - 70),
               (''Overbought: RSI={rsi:.1f}, price above upper BB'', [rsi]))
            else if rsi > 65 \<and> price > bb_mid then
              (SHORT, 60 + (rsi - 65), (''Near overbought: RSI={rsi:.1f}'', [rsi]))
            else (NEUTRAL, 50, (''No clear signal'', [])))
     in Inr \<lparr>name = ''RSI Mean Reversion'', signal = sig, confidence = min conf 100,
              indicators = [(''rsi'', py_round rsi 2), (''bb_lower'', bb_lower),
                            (''bb_upper'', bb_upper)],
              reason = why\<rparr>))))"

definition strategy_golden_cross :: "ndarray2 \<Rightarrow> error + StrategySignal" where
  "strategy_golden_cross candles =
     ebind (column candles 4) (\<lambda>closes.
     ebind (calculate_ema closes 8) (\<lambda>fast_ema.
     ebind (calculate_ema closes 21) (\<lambda>slow_ema.
     ebind (if len closes > 1 then calculate_ema (py_slice closes None (Some (- 1))) 8
            else Inr fast_ema) (\<lambda>prev_fast.
     ebind (if len closes > 1 then calculate_ema (py_slice closes None (Some (- 1))) 21
            else Inr slow_ema) (\<lambda>prev_slow.
     let (sig, conf, why) =
           (if prev_fast \<le> prev_slow \<and> fast_ema > slow_ema then
              (LONG, 70, (''Golden cross: Fast EMA crossed above Slow EMA'', []))
            else if prev_fast \<ge> prev_slow \<and> fast_ema < slow_ema then
              (SHORT, 70, (''Death cross: Fast EMA crossed below Slow EMA'', []))
            else if fast_ema > slow_ema then
              (LONG, 55, (''Uptrend: Fast EMA above Slow EMA'', []))
            else if fast_ema < slow_ema then
              (SHORT, 55, (''Downtrend: Fast EMA below Slow EMA'', []))
            else (NEUTRAL, 50, (''No crossover'', [])))
     in Inr \<lparr>name = ''Golden Cross'', signal = sig, confidence = conf,
              indicators = [(''fast_ema'', py_round fast_ema 2),
                            (''slow_ema'', py_round slow_ema 2)],
              reason = why\<rparr>)))))"

definition strategy_macd :: "ndarray2 \<Rightarrow> error + StrategySignal" where
  "strategy_macd candles =
     ebind (column candles 4) (\<lambda>closes.
     ebind (calculate_macd closes) (\<lambda>(macd_line, signal_line, histogram).
     let (sig, conf, why) =
           (if histogram > 0 \<and> macd_line > 0 then
              (LONG, 60 + min (\<bar>histogram\<bar> * 10) 30,
               (''Bullish MACD: histogram={histogram:.4f}'', [histogram]))
            else if histogram < 0 \<and> macd_line < 0 then
              (SHORT, 60 + min (\<bar>histogram\<bar> * 10) 30,
               (''Bearish MACD: histogram={histogram:.4f}'', [histogram]))
            else (NEUTRAL, 50, (''No clear MACD signal'', [])))
     in Inr \<lparr>name = ''MACD'', signal = sig, confidence = min conf 100,
              indicators = [(''macd'', py_round macd_line 4),
                            (''signal'', py_round signal_line 4),
                            (''histogram'', py_round histogram 4)],
              reason = why\<rparr>))"

text \<open>
  The two guarded quotients of \<^verbatim>\<open>strategy_volume_breakout\<close> (source lines 261 to 266),
  each a conditional expression of the source, are named so that they can be spoken about.
\<close>

definition vol_ratio_of :: "real list \<Rightarrow> error + real" where
  "vol_ratio_of volumes =
     ebind (py_index volumes (- 1)) (\<lambda>current_vol.
     ebind (np_mean (py_slice volumes (Some (- 20)) (Some (- 1)))) (\<lambda>avg_vol.
     if avg_vol > 0 then fdiv current_vol avg_vol else Inr 1))"

definition price_change_of :: "real list \<Rightarrow> error + real" where
  "price_change_of closes =
     ebind (py_index closes (- 2)) (\<lambda>prev_close.
     if prev_close > 0 then
       ebind (py_index closes (- 1)) (\<lambda>last_close.
       fdiv (last_close - prev_close) prev_close)
     else Inr 0)"

definition strategy_volume_breakout :: "ndarray2 \<Rightarrow> error + StrategySignal" where
  "strategy_volume_breakout candles =
     ebind (column candles 4) (\<lambda>closes.
     ebind (column candles 5) (\<lambda>volumes.
     if len volumes < 20 then
       Inr \<lparr>name = ''Volume Breakout'', signal = NEUTRAL, confidence = 50,
            indicators = [], reason = (''Not enough data'', [])\<rparr>
     else
       ebind (vol_ratio_of volumes) (\<lambda>vol_ratio.
       ebind (price_change_of closes) (\<lambda>price_change.
       let (sig, conf, why) =
             (if vol_ratio > 2 \<and> price_change > 1 / 100 then
                (STRONG_LONG, 75 + min (vol_ratio * 5) 20,
                 (''Volume breakout UP: {vol_ratio:.1f}x avg vol, +{price_change*100:.1f}%'',
                  [vol_ratio, price_change * 100]))
              else if vol_ratio > 3 / 2 \<and> price_change > 5 / 1000 then
                (LONG, 60 + min (vol_ratio * 5) 20,
                 (''High volume UP: {vol_ratio:.1f}x avg vol'', [vol_ratio]))
              else if vol_ratio > 2 \<and> price_change < - (1 / 100) then
                (STRONG_SHORT, 75 + min (vol_ratio * 5) 20,
                 (''Volume breakdown: {vol_ratio:.1f}x avg vol, {price_change*100:.1f}%'',
                  [vol_ratio, price_change * 100]))
              else if vol_ratio > 3 / 2 \<and> price_change < - (5 / 1000) then
                (SHORT, 60 + min (vol_ratio * 5) 20,
                 (''High volume DOWN: {vol_ratio:.1f}x avg vol'', [vol_ratio]))
              else (NEUTRAL, 50, (''Normal volume'', [])))
       in Inr \<lparr>name = ''Volume Breakout'', signal = sig, confidence = min conf 100,
                indicators = [(''vol_ratio'', py_round vol_ratio 2),
                              (''price_change'', py_round (price_change * 100) 2)],
                reason = why\<rparr>))))"

section \<open>The aggregator\<close>

text \<open>
  The body of \<^verbatim>\<open>analyze\<close> after the strategies have run, in its three steps: the loop
  that accumulates \<open>(total_weight, weighted_signal, weighted_confidence)\<close>, the guarded
  averages, and the mapping of the average back to a \<open>SignalType\<close>.
\<close>

definition weight_of :: "SignalEngine \<Rightarrow> StrategySignal \<Rightarrow> real" where
  "weight_of eng strat =
     (case weights eng (name strat) of None \<Rightarrow> default_weight eng | Some w \<Rightarrow> w)"

definition accumulate ::
  "SignalEngine \<Rightarrow> real \<times> real \<times> real \<Rightarrow> StrategySignal \<Rightarrow> real \<times> real \<times> real" where
  "accumulate eng acc strat =
     (case acc of (total_weight, weighted_signal, weighted_confidence) \<Rightarrow>
        let weight = weight_of eng strat
        in (total_weight + weight,
            weighted_signal + of_int (signal_value (signal strat)) * weight * (confidence strat / 100),
            weighted_confidence + confidence strat * weight))"

definition averages :: "real \<times> real \<times> real \<Rightarrow> error + real \<times> real" where
  "averages acc =
     (case acc of (total_weight, weighted_signal, weighted_confidence) \<Rightarrow>
        if total_weight > 0 then
          ebind (fdiv weighted_signal total_weight) (\<lambda>avg_signal.
          ebind (fdiv weighted_confidence total_weight) (\<lambda>avg_conf.
          Inr (avg_signal, avg_conf)))
        else Inr (0, 50))"

definition map_to_signal_type :: "real \<Rightarrow> SignalType" where
  "map_to_signal_type avg_signal =
     (if avg_signal \<ge> 3 / 2 then STRONG_LONG
      else if avg_signal \<ge> 1 / 2 then LONG
      else if avg_signal \<le> - (3 / 2) then STRONG_SHORT
      else if avg_signal \<le> - (1 / 2) then SHORT
      else NEUTRAL)"

definition aggregate :: "SignalEngine \<Rightarrow> StrategySignal list \<Rightarrow> error + SignalType \<times> real" where
  "aggregate eng strats =
     ebind (averages (foldl (accumulate eng) (0, 0, 0) strats)) (\<lambda>(avg_signal, avg_conf).
     Inr (map_to_signal_type avg_signal, avg_conf))"

text \<open>
  \<^verbatim>\<open>analyze\<close>. The wall clock read by \<^verbatim>\<open>datetime.now()\<close> is the argument \<open>now\<close>.
\<close>

definition analyze :: "SignalEngine \<Rightarrow> string \<Rightarrow> ndarray2 \<Rightarrow> datetime \<Rightarrow> error + CompositeSignal" where
  "analyze eng sy candles now =
     ebind (last_row_item candles 4) (\<lambda>p.
     ebind (strategy_rsi_mean_reversion candles) (\<lambda>s1.
     ebind (strategy_golden_cross candles) (\<lambda>s2.
     ebind (strategy_macd candles) (\<lambda>s3.
     ebind (strategy_volume_breakout candles) (\<lambda>s4.
     ebind (aggregate eng [s1, s2, s3, s4]) (\<lambda>(fs, ac).
     Inr \<lparr>symbol = sy, price = p, final_signal = fs, avg_confidence = ac,
          strategies = [s1, s2, s3, s4], timestamp = now\<rparr>))))))"

section \<open>Reference definitions\<close>

text \<open>
  The relative strength index as the specification words it: the neutral value 50 below
  \<open>period + 1\<close> points; otherwise the simple averages of the gains and of the losses over
  the trailing \<open>period\<close> differences of consecutive closes, 100 when the average loss is
  zero, and \<open>100 - 100 / (1 + avg_gain / avg_loss)\<close> otherwise.
\<close>

definition trailing_deltas :: "real list \<Rightarrow> nat \<Rightarrow> real list" where
  "trailing_deltas closes p =
     map (\<lambda>i. closes ! Suc i - closes ! i) [length closes - 1 - p ..< length closes - 1]"

definition rsi_spec :: "real list \<Rightarrow> nat \<Rightarrow> real" where
  "rsi_spec closes p =
     (if length closes < p + 1 then 50
      else
        let ds = trailing_deltas closes p;
            avg_gain = (\<Sum>d\<leftarrow>ds. if d > 0 then d else 0) / real p;
            avg_loss = (\<Sum>d\<leftarrow>ds. if d < 0 then - d else 0) / real p
        in if avg_loss = 0 then 100 else 100 - 100 / (1 + avg_gain / avg_loss))"

text \<open>
  The exponential moving average as the specification words it: the last close when there
  are fewer closes than \<open>period\<close>; otherwise the average is seeded with the first close and
  run forward over the rest with the multiplier \<open>2 / (period + 1)\<close>.
\<close>

fun ema_run :: "real \<Rightarrow> real \<Rightarrow> real list \<Rightarrow> real" where
  "ema_run k e [] = e"
| "ema_run k e (p # ps) = ema_run k (p * k + e * (1 - k)) ps"

definition ema_spec :: "real list \<Rightarrow> nat \<Rightarrow> real" where
  "ema_spec closes period =
     (if length closes < period then last closes
      else ema_run (2 / (real period + 1)) (hd closes) (tl closes))"

text \<open>The close and volume columns of a candle array.\<close>

definition closes_of :: "ndarray2 \<Rightarrow> real list" where
  "closes_of c = map (\<lambda>r. r ! 4) (rows c)"

definition volumes_of :: "ndarray2 \<Rightarrow> real list" where
  "volumes_of c = map (\<lambda>r. r ! 5) (rows c)"

text \<open>
  The two quotients of the volume breakout as the specification words them: the volume
  ratio is the current volume over the mean of the 19 volumes before it, 1 when that mean
  is zero; the price change is the relative change of the last close against the close
  before it, 0 when that close is zero.
\<close>

definition mean :: "real list \<Rightarrow> real" where
  "mean xs = sum_list xs / real (length xs)"

definition prev_19 :: "real list \<Rightarrow> real list" where
  "prev_19 volumes = take 19 (drop (length volumes - 20) volumes)"

definition prev_close :: "real list \<Rightarrow> real" where
  "prev_close closes = closes ! (length closes - 2)"



text \<open>
  The aggregation as the specification words it: the three weighted sums over the strategy
  signals, and the composite they determine.
\<close>

definition total_weight :: "SignalEngine \<Rightarrow> StrategySignal list \<Rightarrow> real" where
  "total_weight eng ss = (\<Sum>s\<leftarrow>ss. weight_of eng s)"

definition weighted_signal_sum :: "SignalEngine \<Rightarrow> StrategySignal list \<Rightarrow> real" where
  "weighted_signal_sum eng ss =
     (\<Sum>s\<leftarrow>ss. of_int (signal_value (signal s)) * weight_of eng s * (confidence s / 100))"

definition weighted_confidence_sum :: "SignalEngine \<Rightarrow> StrategySignal list \<Rightarrow> real" where
  "weighted_confidence_sum eng ss = (\<Sum>s\<leftarrow>ss. confidence s * weight_of eng s)"

definition composite_spec :: "SignalEngine \<Rightarrow> StrategySignal list \<Rightarrow> SignalType \<times> real" where
  "composite_spec eng ss =
     (if 0 < total_weight eng ss
      then (map_to_signal_type (weighted_signal_sum eng ss / total_weight eng ss),
            weighted_confidence_sum eng ss / total_weight eng ss)
      else (map_to_signal_type 0, 50))"

section \<open>Example inputs\<close>

text \<open>
  Candle arrays on which the theorems below are evaluated. \<open>candles_of\<close> builds a row
  \<open>[time, open, high, low, close, volume]\<close> from a close and a volume.
\<close>

definition candles_of :: "(real \<times> real) list \<Rightarrow> ndarray2" where
  "candles_of bars = \<lparr>ncols = 6, rows = map (\<lambda>(cl, v). [0, cl, cl, cl, cl, v]) bars\<rparr>"

definition candles_12 :: ndarray2 where
  "candles_12 = candles_of [(0, 1), (0, 1), (0, 1), (0, 1), (0, 1), (0, 1), (0, 1), (0, 1),
     (0, 1), (0, 1), (0, 1), (13, 1)]"



definition candles_5_columns :: ndarray2 where
  "candles_5_columns = \<lparr>ncols = 5, rows = [[0, 1, 1, 1, 1]]\<rparr>"


section \<open>Basic facts about the primitives\<close>

lemma ebind_Inr [simp]: "ebind (Inr x) f = f x"
  by (simp add: ebind_def)

lemma ebind_Inl [simp]: "ebind (Inl e) f = Inl e"
  by (simp add: ebind_def)

lemma ebind_eq_Inr: "ebind m f = Inr y \<longleftrightarrow> (\<exists>x. m = Inr x \<and> f x = Inr y)"
  by (cases m) simp_all

lemma fdiv_nonzero: "b \<noteq> 0 \<Longrightarrow> fdiv a b = Inr (a / b)"
  by (simp add: fdiv_def)

section \<open>The discretization is monotonic\<close>

text \<open>
  Claim C6. The mapping of the average signal back to a \<open>SignalType\<close> (at least 1.5 is
  STRONG_LONG, at least 0.5 is LONG, at most -1.5 is STRONG_SHORT, at most -0.5 is SHORT,
  anything else NEUTRAL, tested in that order) is monotonic: for reals \<open>a < b\<close> the numeric
  value of the type assigned to \<open>a\<close> is at most that of the type assigned to \<open>b\<close>.
\<close>

theorem discretization_monotonic:
  "a < b \<Longrightarrow> signal_value (map_to_signal_type a) \<le> signal_value (map_to_signal_type b)"
  by (simp add: map_to_signal_type_def)

theorem discretization_monotonic_witness:
  "(2 / 5 :: real) < 3 / 5 \<and>
   signal_value (map_to_signal_type (2 / 5)) = 0 \<and>
   signal_value (map_to_signal_type (3 / 5)) = 1 \<and>
   signal_value (map_to_signal_type (2 / 5)) \<le> signal_value (map_to_signal_type (3 / 5))"
  using discretization_monotonic [of "2 / 5" "3 / 5"] by (simp add: map_to_signal_type_def)

section \<open>The relative strength index\<close>

lemma length_np_diff: "length (np_diff xs) = length xs - 1"
  by (simp add: np_diff_def)

lemma nth_np_diff: "Suc i < length xs \<Longrightarrow> np_diff xs ! i = xs ! Suc i - xs ! i"
  by (simp add: np_diff_def nth_tl length_np_diff)

lemma nat_max_diff: "nat (max 0 (int n - int p)) = n - p"
  by arith

lemma py_slice_trailing:
  "0 < p \<Longrightarrow> py_slice xs (Some (- int p)) None = drop (length xs - p) xs"
  by (simp add: py_slice_def slice_bound_def Let_def nat_max_diff)

lemma drop_np_diff:
  "drop (length (np_diff xs) - p) (np_diff xs) = trailing_deltas xs p"
  by (rule nth_equalityI) (auto simp: trailing_deltas_def nth_np_diff length_np_diff)

lemma sum_list_nonneg_map:
  "(\<And>x. 0 \<le> f x) \<Longrightarrow> 0 \<le> (\<Sum>x\<leftarrow>xs. (f x :: real))"
  by (induction xs) auto

lemma calculate_rsi_short:
  "len closes < period + 1 \<Longrightarrow> calculate_rsi closes period = Inr 50"
  by (simp add: calculate_rsi_def)

lemma calculate_rsi_long:
  assumes p: "0 < p" and n: "p + 1 \<le> length closes"
  shows "calculate_rsi closes (int p) = Inr (rsi_spec closes p)"
proof -
  let ?ds = "trailing_deltas closes p"
  let ?g = "\<lambda>d::real. if d > 0 then d else 0"
  let ?l = "\<lambda>d::real. if d < 0 then - d else 0"
  have len: "length ?ds = p"
    using n by (simp add: trailing_deltas_def)
  have sg: "py_slice (map ?g (np_diff closes)) (Some (- int p)) None = map ?g ?ds"
    by (simp only: py_slice_trailing [OF p] length_map drop_map drop_np_diff)
  have sl: "py_slice (map ?l (np_diff closes)) (Some (- int p)) None = map ?l ?ds"
    by (simp only: py_slice_trailing [OF p] length_map drop_map drop_np_diff)
  have mg: "np_mean (map ?g ?ds) = Inr (sum_list (map ?g ?ds) / real p)"
    using p len by (simp add: np_mean_def fdiv_def)
  have ml: "np_mean (map ?l ?ds) = Inr (sum_list (map ?l ?ds) / real p)"
    using p len by (simp add: np_mean_def fdiv_def)
  have g0: "0 \<le> sum_list (map ?g ?ds) / real p"
    by (intro divide_nonneg_nonneg sum_list_nonneg_map) auto
  have l0: "0 \<le> sum_list (map ?l ?ds) / real p"
    by (intro divide_nonneg_nonneg sum_list_nonneg_map) auto
  have rs: "sum_list (map ?l ?ds) / real p \<noteq> 0 \<Longrightarrow>
      1 + (sum_list (map ?g ?ds) / real p) / (sum_list (map ?l ?ds) / real p) \<noteq> 0"
  proof -
    assume "sum_list (map ?l ?ds) / real p \<noteq> 0"
    have "0 \<le> (sum_list (map ?g ?ds) / real p) / (sum_list (map ?l ?ds) / real p)"
      using g0 l0 by (rule divide_nonneg_nonneg)
    then show ?thesis by linarith
  qed
  have notshort: "\<not> len closes < int p + 1"
    using n by (simp add: len_def)
  show ?thesis
    unfolding calculate_rsi_def rsi_spec_def Let_def
    using notshort n rs
    by (simp only: if_False sg sl mg ml ebind_Inr) (auto simp: fdiv_def)
qed

text \<open>
  Claim C4. With fewer than \<open>period + 1\<close> closes (fewer than 15 at the default period 14)
  \<^verbatim>\<open>calculate_rsi\<close> returns exactly 50. Otherwise, for a period of at least 1, it returns
  what the specification describes: the simple averages of gain and loss over the trailing
  \<open>period\<close> deltas, 100 when the average loss is 0, and
  \<open>100 - 100 / (1 + avg_gain / avg_loss)\<close> otherwise. It never fails on the way.
\<close>

theorem calculate_rsi_correct:
  "(len closes < period + 1 \<longrightarrow> calculate_rsi closes period = Inr 50) \<and>
   (1 \<le> period \<longrightarrow> calculate_rsi closes period = Inr (rsi_spec closes (nat period)))"
proof (intro conjI impI)
  assume "len closes < period + 1"
  then show "calculate_rsi closes period = Inr 50" by (rule calculate_rsi_short)
next
  assume p: "1 \<le> period"
  show "calculate_rsi closes period = Inr (rsi_spec closes (nat period))"
  proof (cases "len closes < period + 1")
    case True
    then have "length closes < nat period + 1" using p by (simp add: len_def)
    then show ?thesis using True by (simp add: calculate_rsi_short rsi_spec_def)
  next
    case False
    then have "nat period + 1 \<le> length closes" using p by (simp add: len_def)
    moreover have "0 < nat period" using p by simp
    ultimately have "calculate_rsi closes (int (nat period)) = Inr (rsi_spec closes (nat period))"
      by (rule calculate_rsi_long [rotated])
    then show ?thesis using p by simp
  qed
qed

theorem calculate_rsi_correct_witness:
  "len [1, 2 :: real] < 14 + 1 \<and> (1::int) \<le> 14 \<and> calculate_rsi [1, 2] 14 = Inr 50 \<and>
   (1::int) \<le> 2 \<and> \<not> len [1, 3, 2 :: real] < 2 + 1 \<and> calculate_rsi [1, 3, 2] 2 = Inr (200 / 3)"
  using calculate_rsi_correct [of "[1, 2]" 14] calculate_rsi_correct [of "[1, 3, 2]" 2]
  by (simp add: len_def rsi_spec_def trailing_deltas_def)

section \<open>Moving averages and MACD\<close>

lemma py_index_last: "xs \<noteq> [] \<Longrightarrow> py_index xs (- 1) = Inr (last xs)"
  by (simp add: py_index_def len_def Let_def last_conv_nth nat_diff_distrib')

lemma py_index_empty: "py_index [] i = Inl IndexError"
  by (simp add: py_index_def len_def Let_def)

lemma py_index_first: "xs \<noteq> [] \<Longrightarrow> py_index xs 0 = Inr (hd xs)"
  by (simp add: py_index_def len_def Let_def hd_conv_nth)

lemma py_slice_from_1: "py_slice xs (Some 1) None = tl xs"
  by (cases xs) (simp_all add: py_slice_def slice_bound_def Let_def)

lemma py_slice_butlast: "py_slice xs None (Some (- 1)) = butlast xs"
  by (simp add: py_slice_def slice_bound_def Let_def butlast_conv_take nat_diff_distrib' max_def)

lemma foldl_ema_run:
  "foldl (\<lambda>ema price. price * k + ema * (1 - k)) e ps = ema_run k e ps"
  by (induction ps arbitrary: e) simp_all

lemma calculate_ema_spec:
  assumes "closes \<noteq> []"
  shows "calculate_ema closes (int period) = Inr (ema_spec closes period)"
proof -
  have "0 \<le> real period" by simp
  then have "real period + 1 \<noteq> 0" by linarith
  then have "fdiv 2 (real_of_int (int period + 1)) = Inr (2 / (real period + 1))"
    by (simp add: fdiv_def)
  then show ?thesis
    using assms
    by (simp add: calculate_ema_def ema_spec_def len_def py_index_last py_index_first
        py_slice_from_1 foldl_ema_run)
qed

lemma calculate_ema_empty: "0 \<le> period \<Longrightarrow> calculate_ema [] period = Inl IndexError"
  by (simp add: calculate_ema_def py_index_empty len_def fdiv_def)

lemma calculate_macd_spec:
  assumes "closes \<noteq> []"
  shows "calculate_macd closes =
     Inr (ema_spec closes 12 - ema_spec closes 26,
          (ema_spec closes 12 - ema_spec closes 26) * (9 / 10),
          (ema_spec closes 12 - ema_spec closes 26) / 10)"
  using calculate_ema_spec [OF assms, of 12] calculate_ema_spec [OF assms, of 26]
  by (simp add: calculate_macd_def Let_def)

lemma calculate_macd_empty: "calculate_macd [] = Inl IndexError"
  by (simp add: calculate_macd_def calculate_ema_empty)

text \<open>
  Claim C7, as the code has it. For every sequence with at least one close,
  \<^verbatim>\<open>calculate_macd\<close> returns the MACD line \<open>EMA(closes, 12) - EMA(closes, 26)\<close>, the
  signal line approximated as 0.9 times the MACD line, and the histogram, their difference;
  the moving averages are the ones the specification describes. On the empty sequence it
  returns nothing: the first moving average reads the last close and raises \<open>IndexError\<close>.
\<close>

theorem calculate_macd_correct:
  "(closes \<noteq> [] \<longrightarrow>
      calculate_ema closes 12 = Inr (ema_spec closes 12) \<and>
      calculate_ema closes 26 = Inr (ema_spec closes 26) \<and>
      calculate_macd closes =
        Inr (let macd_line = ema_spec closes 12 - ema_spec closes 26;
                 signal_line = macd_line * (9 / 10);
                 histogram = macd_line - signal_line
             in (macd_line, signal_line, histogram))) \<and>
   (closes = [] \<longrightarrow> calculate_macd closes = Inl IndexError)"
  using calculate_ema_spec [of closes 12] calculate_ema_spec [of closes 26]
  by (simp add: calculate_macd_spec calculate_macd_empty Let_def)

theorem calculate_macd_correct_witness:
  "[0, 0, 0, 0, 0, 0, 0, 0, 0, 0, 0, 13 :: real] \<noteq> [] \<and>
   calculate_ema [0, 0, 0, 0, 0, 0, 0, 0, 0, 0, 0, 13] 12 = Inr 2 \<and>
   calculate_ema [0, 0, 0, 0, 0, 0, 0, 0, 0, 0, 0, 13] 26 = Inr 13 \<and>
   calculate_macd [0, 0, 0, 0, 0, 0, 0, 0, 0, 0, 0, 13] = Inr (- 11, - (99 / 10), - (11 / 10)) \<and>
   ([] :: real list) = [] \<and> calculate_macd [] = Inl IndexError"
  using calculate_macd_correct [of "[0, 0, 0, 0, 0, 0, 0, 0, 0, 0, 0, 13]"]
    calculate_macd_correct [of "[]"]
  by (simp add: ema_spec_def Let_def)

text \<open>
  Claim C7 as stated speaks of every sequence of closes. On the empty one neither moving
  average exists and \<^verbatim>\<open>calculate_macd\<close> returns no triple.
\<close>

theorem calculate_macd_empty_counterexample:
  "calculate_ema [] 12 = Inl IndexError \<and> calculate_ema [] 26 = Inl IndexError \<and>
   calculate_macd [] = Inl IndexError"
  by (simp add: calculate_macd_def calculate_ema_def py_index_def len_def)

section \<open>The strategies return, with bounded confidence\<close>

lemma column_4: "4 < ncols c \<Longrightarrow> column c 4 = Inr (closes_of c)"
  by (simp add: column_def closes_of_def)

lemma column_5: "5 < ncols c \<Longrightarrow> column c 5 = Inr (volumes_of c)"
  by (simp add: column_def volumes_of_def)

lemma closes_of_nonempty: "rows c \<noteq> [] \<Longrightarrow> closes_of c \<noteq> []"
  by (simp add: closes_of_def)

lemma np_mean_Inr: "xs \<noteq> [] \<Longrightarrow> np_mean xs = Inr (sum_list xs / real (length xs))"
  by (simp add: np_mean_def fdiv_def)

lemma np_std_Inr: "xs \<noteq> [] \<Longrightarrow> \<exists>v. np_std xs = Inr v"
  by (simp add: np_std_def np_mean_Inr)

lemma py_slice_last_20:
  "py_slice xs (Some (- 20)) None = drop (length xs - 20) xs"
  using py_slice_trailing [of 20 xs] by simp

lemma calculate_bollinger_bands_total:
  assumes "closes \<noteq> []"
  shows "\<exists>u m l. calculate_bollinger_bands closes 20 2 = Inr (u, m, l)"
proof (cases "len closes < 20")
  case True
  then show ?thesis
    using assms by (simp add: calculate_bollinger_bands_def py_index_last)
next
  case False
  then have "drop (length closes - 20) closes \<noteq> []"
    using assms by (simp add: len_def)
  then obtain v where "np_std (drop (length closes - 20) closes) = Inr v"
    and "np_mean (drop (length closes - 20) closes) =
      Inr (sum_list (drop (length closes - 20) closes) / real (length (drop (length closes - 20) closes)))"
    using np_std_Inr np_mean_Inr by blast
  then show ?thesis
    using False by (simp add: calculate_bollinger_bands_def py_slice_last_20 Let_def)
qed

lemma calculate_rsi_14: "calculate_rsi closes 14 = Inr (rsi_spec closes 14)"
proof (cases "len closes < 14 + 1")
  case True
  then show ?thesis by (simp add: calculate_rsi_short rsi_spec_def len_def)
next
  case False
  then have "14 + 1 \<le> length closes" by (simp add: len_def)
  then show ?thesis using calculate_rsi_long [of 14 closes] by simp
qed

lemma strategy_rsi_mean_reversion_result:
  assumes "rows c \<noteq> []" and "4 < ncols c"
  shows "\<exists>st. strategy_rsi_mean_reversion c = Inr st \<and>
           50 \<le> confidence st \<and> confidence st \<le> 100 \<and>
           (signal st = NEUTRAL \<longrightarrow> confidence st = 50) \<and>
           (signal st \<noteq> NEUTRAL \<longrightarrow> 55 \<le> confidence st)"
proof -
  have ne: "closes_of c \<noteq> []" using assms(1) by (rule closes_of_nonempty)
  obtain u m l where bb: "calculate_bollinger_bands (closes_of c) 20 2 = Inr (u, m, l)"
    using calculate_bollinger_bands_total [OF ne] by blast
  define rsi where "rsi = rsi_spec (closes_of c) 14"
  define price where "price = last (closes_of c)"
  have rs: "calculate_rsi (closes_of c) 14 = Inr rsi"
    by (simp add: calculate_rsi_14 rsi_def)
  have pr: "py_index (closes_of c) (- 1) = Inr price"
    using ne by (simp add: py_index_last price_def)
  show ?thesis
    unfolding strategy_rsi_mean_reversion_def column_4 [OF assms(2)] ebind_Inr pr rs bb
    by (simp split: if_splits)
qed

lemma prev_ema_total:
  assumes "closes \<noteq> []" and "0 \<le> period"
  shows "\<exists>e. (if 1 < len closes
               then calculate_ema (py_slice closes None (Some (- 1))) period
               else Inr x) = Inr e"
proof (cases "1 < len closes")
  case True
  then have "butlast closes \<noteq> []"
    by (cases closes) (auto simp: len_def)
  then have "calculate_ema (butlast closes) (int (nat period)) =
      Inr (ema_spec (butlast closes) (nat period))"
    by (rule calculate_ema_spec)
  then show ?thesis
    using True assms(2) by (simp add: py_slice_butlast)
next
  case False
  then show ?thesis by simp
qed

lemma strategy_golden_cross_result:
  assumes "rows c \<noteq> []" and "4 < ncols c"
  shows "\<exists>st. strategy_golden_cross c = Inr st \<and>
           50 \<le> confidence st \<and> confidence st \<le> 100 \<and>
           (signal st = NEUTRAL \<longrightarrow> confidence st = 50) \<and>
           (signal st \<noteq> NEUTRAL \<longrightarrow> 55 \<le> confidence st)"
proof -
  have ne: "closes_of c \<noteq> []" using assms(1) by (rule closes_of_nonempty)
  have fast: "calculate_ema (closes_of c) 8 = Inr (ema_spec (closes_of c) 8)"
    using calculate_ema_spec [OF ne, of 8] by simp
  have slow: "calculate_ema (closes_of c) 21 = Inr (ema_spec (closes_of c) 21)"
    using calculate_ema_spec [OF ne, of 21] by simp
  obtain pf where pf: "(if 1 < len (closes_of c)
      then calculate_ema (py_slice (closes_of c) None (Some (- 1))) 8
      else Inr (ema_spec (closes_of c) 8)) = Inr pf"
    using prev_ema_total [OF ne, of 8] by auto
  obtain ps where ps: "(if 1 < len (closes_of c)
      then calculate_ema (py_slice (closes_of c) None (Some (- 1))) 21
      else Inr (ema_spec (closes_of c) 21)) = Inr ps"
    using prev_ema_total [OF ne, of 21] by auto
  show ?thesis
    unfolding strategy_golden_cross_def column_4 [OF assms(2)] ebind_Inr fast slow pf ps
    by (simp split: if_splits)
qed

lemma strategy_macd_result:
  assumes "rows c \<noteq> []" and "4 < ncols c"
  shows "\<exists>st. strategy_macd c = Inr st \<and>
           50 \<le> confidence st \<and> confidence st \<le> 100 \<and>
           (signal st = NEUTRAL \<longrightarrow> confidence st = 50) \<and>
           (signal st \<noteq> NEUTRAL \<longrightarrow> 55 \<le> confidence st)"
proof -
  have ne: "closes_of c \<noteq> []" using assms(1) by (rule closes_of_nonempty)
  obtain m s h where macd: "calculate_macd (closes_of c) = Inr (m, s, h)"
    using calculate_macd_spec [OF ne] by blast
  show ?thesis
    unfolding strategy_macd_def column_4 [OF assms(2)] ebind_Inr macd
    by (simp add: min_le_iff_disj split: if_splits)
qed

lemma py_index_prev: "2 \<le> length xs \<Longrightarrow> py_index xs (- 2) = Inr (prev_close xs)"
  by (simp add: py_index_def len_def Let_def prev_close_def nat_diff_distrib')

lemma py_slice_prev_19:
  "20 \<le> length xs \<Longrightarrow> py_slice xs (Some (- 20)) (Some (- 1)) = prev_19 xs"
  by (simp add: py_slice_def slice_bound_def Let_def prev_19_def nat_diff_distrib' max_def)

lemma length_prev_19: "20 \<le> length xs \<Longrightarrow> length (prev_19 xs) = 19"
  by (simp add: prev_19_def)

lemma vol_ratio_of_eq:
  assumes "20 \<le> length volumes"
  shows "vol_ratio_of volumes =
     Inr (if 0 < mean (prev_19 volumes) then last volumes / mean (prev_19 volumes) else 1)"
proof -
  have ne: "volumes \<noteq> []" using assms by auto
  have "prev_19 volumes \<noteq> []" using length_prev_19 [OF assms] by auto
  then have m: "np_mean (prev_19 volumes) = Inr (mean (prev_19 volumes))"
    by (simp add: np_mean_Inr mean_def)
  show ?thesis
    unfolding vol_ratio_of_def py_index_last [OF ne] py_slice_prev_19 [OF assms] m ebind_Inr
    by (simp add: fdiv_def)
qed

lemma price_change_of_eq:
  assumes "2 \<le> length closes"
  shows "price_change_of closes =
     Inr (if 0 < prev_close closes
          then (last closes - prev_close closes) / prev_close closes else 0)"
proof -
  have ne: "closes \<noteq> []" using assms by auto
  show ?thesis
    unfolding price_change_of_def py_index_last [OF ne] py_index_prev [OF assms] ebind_Inr
    by (simp add: fdiv_def)
qed

lemma strategy_volume_breakout_result:
  assumes "5 < ncols c"
  shows "\<exists>st. strategy_volume_breakout c = Inr st \<and>
           50 \<le> confidence st \<and> confidence st \<le> 100 \<and>
           (signal st = NEUTRAL \<longrightarrow> confidence st = 50) \<and>
           (signal st \<noteq> NEUTRAL \<longrightarrow> 55 \<le> confidence st)"
proof (cases "len (volumes_of c) < 20")
  case True
  then show ?thesis
    using assms by (simp add: strategy_volume_breakout_def column_4 column_5)
next
  case False
  then have v: "20 \<le> length (volumes_of c)" by (simp add: len_def)
  then have cl: "2 \<le> length (closes_of c)" by (simp add: volumes_of_def closes_of_def)
  have c4: "4 < ncols c" using assms by simp
  obtain vr where vr: "vol_ratio_of (volumes_of c) = Inr vr"
    using vol_ratio_of_eq [OF v] by blast
  obtain pc where pc: "price_change_of (closes_of c) = Inr pc"
    using price_change_of_eq [OF cl] by blast
  show ?thesis
    unfolding strategy_volume_breakout_def column_4 [OF c4] column_5 [OF assms] ebind_Inr vr pc
    using False by (simp add: min_le_iff_disj split: if_splits)
qed

section \<open>The aggregator\<close>

lemma foldl_accumulate:
  "foldl (accumulate eng) (t, s, k) ss =
     (t + total_weight eng ss, s + weighted_signal_sum eng ss, k + weighted_confidence_sum eng ss)"
  by (induction ss arbitrary: t s k)
     (simp_all add: accumulate_def Let_def total_weight_def weighted_signal_sum_def
        weighted_confidence_sum_def add.assoc)

lemma map_to_signal_type_0: "map_to_signal_type 0 = NEUTRAL"
  by (simp add: map_to_signal_type_def)

lemma aggregate_eq: "aggregate eng ss = Inr (composite_spec eng ss)"
  by (simp add: aggregate_def foldl_accumulate averages_def composite_spec_def fdiv_def)

text \<open>
  Claim C3. For any strategy signals (the four of an analysis in particular) and any weight
  table, a missing entry counting as 1.0, the aggregator accumulates the total weight, the
  sum of the contributions \<open>value * weight * (confidence / 100)\<close> and the sum of
  \<open>confidence * weight\<close>. With a positive total weight the average signal and the average
  confidence are the two sums over the total weight; otherwise the average signal is 0, so
  the composite signal is NEUTRAL, and the confidence is 50. No division by zero happens:
  the aggregator always returns.
\<close>

theorem aggregate_correct:
  "foldl (accumulate eng) (0, 0, 0) ss =
     (total_weight eng ss, weighted_signal_sum eng ss, weighted_confidence_sum eng ss) \<and>
   aggregate eng ss =
     Inr (if 0 < total_weight eng ss
          then (map_to_signal_type (weighted_signal_sum eng ss / total_weight eng ss),
                weighted_confidence_sum eng ss / total_weight eng ss)
          else (NEUTRAL, 50)) \<and>
   weight_of (init (Some tbl)) s = (case tbl (name s) of None \<Rightarrow> 1 | Some w \<Rightarrow> w) \<and>
   weight_of (init None) s = 1"
  by (simp add: foldl_accumulate aggregate_eq composite_spec_def map_to_signal_type_0
      weight_of_def init_def split: option.splits)

theorem aggregate_correct_witness:
  "aggregate (init None)
     [\<lparr>name = ''RSI Mean Reversion'', signal = LONG, confidence = 70, indicators = [],
        reason = ('''', [])\<rparr>,
      \<lparr>name = ''Golden Cross'', signal = LONG, confidence = 55, indicators = [],
        reason = ('''', [])\<rparr>,
      \<lparr>name = ''MACD'', signal = NEUTRAL, confidence = 50, indicators = [],
        reason = ('''', [])\<rparr>,
      \<lparr>name = ''Volume Breakout'', signal = SHORT, confidence = 50, indicators = [],
        reason = ('''', [])\<rparr>]
   = Inr (NEUTRAL, 225 / 4) \<and>
   aggregate (init (Some (\<lambda>k. Some 0)))
     [\<lparr>name = ''RSI Mean Reversion'', signal = LONG, confidence = 70, indicators = [],
        reason = ('''', [])\<rparr>,
      \<lparr>name = ''Golden Cross'', signal = LONG, confidence = 55, indicators = [],
        reason = ('''', [])\<rparr>,
      \<lparr>name = ''MACD'', signal = NEUTRAL, confidence = 50, indicators = [],
        reason = ('''', [])\<rparr>,
      \<lparr>name = ''Volume Breakout'', signal = SHORT, confidence = 50, indicators = [],
        reason = ('''', [])\<rparr>]
   = Inr (NEUTRAL, 50)"
  using aggregate_correct [of "init None"
     "[\<lparr>name = ''RSI Mean Reversion'', signal = LONG, confidence = 70, indicators = [],
        reason = ('''', [])\<rparr>,
      \<lparr>name = ''Golden Cross'', signal = LONG, confidence = 55, indicators = [],
        reason = ('''', [])\<rparr>,
      \<lparr>name = ''MACD'', signal = NEUTRAL, confidence = 50, indicators = [],
        reason = ('''', [])\<rparr>,
      \<lparr>name = ''Volume Breakout'', signal = SHORT, confidence = 50, indicators = [],
        reason = ('''', [])\<rparr>]"]
    aggregate_correct [of "init (Some (\<lambda>k. Some 0))"
     "[\<lparr>name = ''RSI Mean Reversion'', signal = LONG, confidence = 70, indicators = [],
        reason = ('''', [])\<rparr>,
      \<lparr>name = ''Golden Cross'', signal = LONG, confidence = 55, indicators = [],
        reason = ('''', [])\<rparr>,
      \<lparr>name = ''MACD'', signal = NEUTRAL, confidence = 50, indicators = [],
        reason = ('''', [])\<rparr>,
      \<lparr>name = ''Volume Breakout'', signal = SHORT, confidence = 50, indicators = [],
        reason = ('''', [])\<rparr>]"]
  by (simp add: total_weight_def weighted_signal_sum_def weighted_confidence_sum_def
      weight_of_def init_def map_to_signal_type_def)



lemma last_row_item_4:
  "rows c \<noteq> [] \<Longrightarrow> 4 < ncols c \<Longrightarrow> last_row_item c 4 = Inr (last (closes_of c))"
  by (simp add: last_row_item_def closes_of_def last_map)

lemma analyze_eq:
  assumes "last_row_item c 4 = Inr p"
    and "strategy_rsi_mean_reversion c = Inr s1" and "strategy_golden_cross c = Inr s2"
    and "strategy_macd c = Inr s3" and "strategy_volume_breakout c = Inr s4"
  shows "analyze eng sy c now =
     Inr \<lparr>symbol = sy, price = p,
          final_signal = fst (composite_spec eng [s1, s2, s3, s4]),
          avg_confidence = snd (composite_spec eng [s1, s2, s3, s4]),
          strategies = [s1, s2, s3, s4], timestamp = now\<rparr>"
  by (simp add: analyze_def assms aggregate_eq split: prod.splits)

section \<open>Confidence bounds\<close>

text \<open>The definitions a concrete analysis is evaluated with.\<close>

lemmas eval_defs = analyze_def strategy_rsi_mean_reversion_def strategy_golden_cross_def
  strategy_macd_def strategy_volume_breakout_def column_def last_row_item_def py_index_def
  py_slice_def slice_bound_def
  len_def calculate_rsi_def calculate_bollinger_bands_def calculate_ema_def calculate_macd_def
  aggregate_def averages_def accumulate_def weight_of_def init_def map_to_signal_type_def
  fdiv_def py_round_def rint_def Let_def

text \<open>
  Claim C2. On every candle array with at least one row and the six columns, each of the
  four strategies returns a signal whose confidence lies between 0 and 100 inclusive.
\<close>

theorem strategy_confidence_in_range:
  assumes "rows c \<noteq> []" and "6 \<le> ncols c"
  shows "(\<exists>st. strategy_rsi_mean_reversion c = Inr st \<and> 0 \<le> confidence st \<and> confidence st \<le> 100) \<and>
         (\<exists>st. strategy_golden_cross c = Inr st \<and> 0 \<le> confidence st \<and> confidence st \<le> 100) \<and>
         (\<exists>st. strategy_macd c = Inr st \<and> 0 \<le> confidence st \<and> confidence st \<le> 100) \<and>
         (\<exists>st. strategy_volume_breakout c = Inr st \<and> 0 \<le> confidence st \<and> confidence st \<le> 100)"
proof -
  have c4: "4 < ncols c" and c5: "5 < ncols c" using assms(2) by simp_all
  have "\<exists>st. strategy_rsi_mean_reversion c = Inr st \<and> 0 \<le> confidence st \<and> confidence st \<le> 100"
    using strategy_rsi_mean_reversion_result [OF assms(1) c4] by force
  moreover
  have "\<exists>st. strategy_golden_cross c = Inr st \<and> 0 \<le> confidence st \<and> confidence st \<le> 100"
    using strategy_golden_cross_result [OF assms(1) c4] by force
  moreover
  have "\<exists>st. strategy_macd c = Inr st \<and> 0 \<le> confidence st \<and> confidence st \<le> 100"
    using strategy_macd_result [OF assms(1) c4] by force
  moreover
  have "\<exists>st. strategy_volume_breakout c = Inr st \<and> 0 \<le> confidence st \<and> confidence st \<le> 100"
    using strategy_volume_breakout_result [OF c5] by force
  ultimately show ?thesis by blast
qed

theorem strategy_confidence_in_range_witness:
  "rows candles_12 \<noteq> [] \<and> 6 \<le> ncols candles_12 \<and>
   map_sum id confidence (strategy_rsi_mean_reversion candles_12) = Inr 50 \<and>
   map_sum id confidence (strategy_golden_cross candles_12) = Inr 70 \<and>
   map_sum id confidence (strategy_macd candles_12) = Inr 71 \<and>
   map_sum id confidence (strategy_volume_breakout candles_12) = Inr 50 \<and>
   (\<exists>st. strategy_macd candles_12 = Inr st \<and> 0 \<le> confidence st \<and> confidence st \<le> 100)"
  using strategy_confidence_in_range [of candles_12]
  by (simp add: candles_12_def candles_of_def eval_defs)





section \<open>When an analysis fails\<close>

lemma strategy_volume_breakout_5_columns:
  "ncols c = 5 \<Longrightarrow> strategy_volume_breakout c = Inl IndexError"
  by (simp add: strategy_volume_breakout_def column_def)

lemma analyze_malformed:
  assumes "rows c = [] \<or> ncols c < 6"
  shows "analyze eng sy c now = Inl IndexError"
proof (cases "rows c = [] \<or> ncols c \<le> 4")
  case True
  then have "last_row_item c 4 = Inl IndexError"
    by (simp add: last_row_item_def)
  then show ?thesis by (simp add: analyze_def)
next
  case False
  then have ne: "rows c \<noteq> []" and c4: "4 < ncols c" and c5: "ncols c = 5"
    using assms by auto
  obtain s1 where s1: "strategy_rsi_mean_reversion c = Inr s1"
    using strategy_rsi_mean_reversion_result [OF ne c4] by blast
  obtain s2 where s2: "strategy_golden_cross c = Inr s2"
    using strategy_golden_cross_result [OF ne c4] by blast
  obtain s3 where s3: "strategy_macd c = Inr s3"
    using strategy_macd_result [OF ne c4] by blast
  show ?thesis
    by (simp add: analyze_def last_row_item_4 [OF ne c4] s1 s2 s3
        strategy_volume_breakout_5_columns [OF c5])
qed

lemma analyze_well_formed:
  assumes "rows c \<noteq> []" and "6 \<le> ncols c"
  shows "\<exists>r. analyze eng sy c now = Inr r \<and> symbol r = sy \<and>
           price r = last (closes_of c) \<and> timestamp r = now"
proof -
  have c4: "4 < ncols c" and c5: "5 < ncols c" using assms(2) by simp_all
  obtain s1 where s1: "strategy_rsi_mean_reversion c = Inr s1"
    using strategy_rsi_mean_reversion_result [OF assms(1) c4] by blast
  obtain s2 where s2: "strategy_golden_cross c = Inr s2"
    using strategy_golden_cross_result [OF assms(1) c4] by blast
  obtain s3 where s3: "strategy_macd c = Inr s3"
    using strategy_macd_result [OF assms(1) c4] by blast
  obtain s4 where s4: "strategy_volume_breakout c = Inr s4"
    using strategy_volume_breakout_result [OF c5] by blast
  show ?thesis
    by (simp add: analyze_eq [OF last_row_item_4 [OF assms(1) c4] s1 s2 s3 s4])
qed

text \<open>
  Claim C1, as the code has it. \<^verbatim>\<open>analyze\<close> validates nothing: on an array with no row
  or with fewer than six columns it ends in the \<open>IndexError\<close> of the first read that is out
  of range, and on every array with at least one row and six columns it returns a composite
  signal for the given symbol, priced at the last close and stamped with the given time.
\<close>

theorem analyze_fails_iff_malformed:
  "(rows c = [] \<or> ncols c < 6 \<longrightarrow> analyze eng sy c now = Inl IndexError) \<and>
   (rows c \<noteq> [] \<and> 6 \<le> ncols c \<longrightarrow>
      (\<exists>r. analyze eng sy c now = Inr r \<and> symbol r = sy \<and>
           price r = last (closes_of c) \<and> timestamp r = now))"
  using analyze_malformed [of c eng sy now] analyze_well_formed [of c eng sy now] by blast

theorem analyze_fails_iff_malformed_witness:
  "ncols candles_5_columns < 6 \<and>
   analyze (init None) ''XXBTZUSD'' candles_5_columns 0 = Inl IndexError \<and>
   rows \<lparr>ncols = 6, rows = []\<rparr> = [] \<and>
   analyze (init None) ''XXBTZUSD'' \<lparr>ncols = 6, rows = []\<rparr> 0 = Inl IndexError \<and>
   rows candles_12 \<noteq> [] \<and> 6 \<le> ncols candles_12 \<and>
   map_sum id price (analyze (init None) ''XXBTZUSD'' candles_12 0) = Inr 13"
  using analyze_fails_iff_malformed [of candles_5_columns "init None" "''XXBTZUSD''" 0]
    analyze_fails_iff_malformed [of "\<lparr>ncols = 6, rows = []\<rparr>" "init None" "''XXBTZUSD''" 0]
    analyze_fails_iff_malformed [of candles_12 "init None" "''XXBTZUSD''" 0]
  by (auto simp: candles_5_columns_def candles_12_def candles_of_def closes_of_def)

text \<open>
  Claim C1 as stated asks for a failure before any computation, with an error of its own.
  On an array of one row and five columns (no volume column) the last close is read, three
  strategies run to their results, and the failure is the \<open>IndexError\<close> of reading column
  5 inside the fourth strategy.
\<close>

theorem analyze_no_validation_counterexample:
  "last_row_item candles_5_columns 4 = Inr 1 \<and>
   map_sum id confidence (strategy_rsi_mean_reversion candles_5_columns) = Inr 50 \<and>
   map_sum id confidence (strategy_golden_cross candles_5_columns) = Inr 50 \<and>
   map_sum id confidence (strategy_macd candles_5_columns) = Inr 50 \<and>
   column candles_5_columns 5 = Inl IndexError \<and>
   strategy_volume_breakout candles_5_columns = Inl IndexError \<and>
   analyze (init None) ''XXBTZUSD'' candles_5_columns 0 = Inl IndexError"
  by (simp add: candles_5_columns_def eval_defs)

section \<open>Determinism\<close>

text \<open>
  Claim C8. Two analyses of the same symbol and candle array by the same engine differ at
  most in the stored timestamp: they fail together, and when they return, the final signal,
  the aggregate confidence and the per-strategy signals and confidences are equal.
\<close>

theorem analyze_deterministic:
  "analyze eng sy c t2 = map_sum id (\<lambda>r. r\<lparr>timestamp := t2\<rparr>) (analyze eng sy c t1) \<and>
   (analyze eng sy c t1 = Inr r1 \<and> analyze eng sy c t2 = Inr r2 \<longrightarrow>
      final_signal r1 = final_signal r2 \<and> avg_confidence r1 = avg_confidence r2 \<and>
      map signal (strategies r1) = map signal (strategies r2) \<and>
      map confidence (strategies r1) = map confidence (strategies r2) \<and>
      strategies r1 = strategies r2 \<and> symbol r1 = symbol r2 \<and> price r1 = price r2 \<and>
      timestamp r1 = t1 \<and> timestamp r2 = t2)"
proof -
  have eq: "analyze eng sy c t = map_sum id (\<lambda>r. r\<lparr>timestamp := t\<rparr>) (analyze eng sy c t')"
    for t t'
    by (simp add: analyze_def ebind_def split: sum.splits prod.splits)
  have "analyze eng sy c t = Inr r \<Longrightarrow> timestamp r = t" for t r
    by (auto simp: analyze_def ebind_def split: sum.splits prod.splits)
  then show ?thesis
    using eq [of t2 t1] by (cases "analyze eng sy c t1") auto
qed

theorem analyze_deterministic_witness:
  "map_sum id final_signal (analyze (init None) ''XXBTZUSD'' candles_12 1000) = Inr NEUTRAL \<and>
   map_sum id final_signal (analyze (init None) ''XXBTZUSD'' candles_12 2000) = Inr NEUTRAL \<and>
   map_sum id timestamp (analyze (init None) ''XXBTZUSD'' candles_12 1000) = Inr 1000 \<and>
   map_sum id timestamp (analyze (init None) ''XXBTZUSD'' candles_12 2000) = Inr 2000 \<and>
   analyze (init None) ''XXBTZUSD'' candles_12 2000
     = map_sum id (\<lambda>r. r\<lparr>timestamp := 2000\<rparr>) (analyze (init None) ''XXBTZUSD'' candles_12 1000)"
proof -
  have v: "map_sum id final_signal (analyze (init None) ''XXBTZUSD'' candles_12 t) = Inr NEUTRAL \<and>
      map_sum id timestamp (analyze (init None) ''XXBTZUSD'' candles_12 t) = Inr t" for t
    by (simp add: candles_12_def candles_of_def eval_defs)
  show ?thesis
    using analyze_deterministic [of "init None" "''XXBTZUSD''" candles_12 2000 1000]
      v [of 1000] v [of 2000]
    by simp
qed

section \<open>The MACD strategy depends on the sign of the MACD line only\<close>



section \<open>The guarded quotients of the volume breakout\<close>





end
